theory Spec2Isabelle
  imports Complex_Main
begin

section \<open>The relational store\<close>

text \<open>
  The view \<open>take_quiz\<close> of \<open>classroom/views/students.py\<close> works on the tables
  Quiz, Question, Answer, StudentAnswer and TakenQuiz through the ORM. A table is the
  list of its rows, in the order the database returns them; a row is a record of the
  columns the view reads. Primary and foreign keys are natural numbers. Automatic
  columns the view never reads (the id of a StudentAnswer or TakenQuiz, the date of a
  TakenQuiz) are left out.
\<close>

type_synonym pk = nat

record quiz =
  quiz_id :: pk
  quiz_name :: string
  quiz_subject :: pk

record question =
  question_id :: pk
  question_quiz :: pk

record answer =
  answer_id :: pk
  answer_question :: pk
  is_correct :: bool

record student_answer =
  sa_student :: pk
  sa_answer :: pk

record 'f taken_quiz =
  tq_student :: pk
  tq_quiz :: pk
  tq_score :: 'f

record 'f database =
  quizzes :: "quiz list"
  questions :: "question list"
  answers :: "answer list"
  student_answers :: "student_answer list"
  taken_quizzes :: "'f taken_quiz list"
  interests :: "(pk \<times> pk) list"

section \<open>Python floats\<close>

text \<open>
  The progress indicator and the final score are computed in floating point:
  \<open>int / int\<close> is true division, \<open>float * 100\<close> and \<open>float * 100.0\<close> multiply by
  the float 100.0, \<open>round(x)\<close> gives an int and \<open>round(x, 2)\<close> a float. The view is
  modelled over any type \<open>'f\<close> of float values with a linear order (the doubles the
  view can produce: no NaN arises from dividing two ints by a non-zero int), and the
  five operations are parameters. Every theorem below therefore holds for the IEEE
  operations as for exact ones.
\<close>

record 'f float_ops =
  int_truediv :: "int \<Rightarrow> int \<Rightarrow> 'f"
  float_mul :: "'f \<Rightarrow> 'f \<Rightarrow> 'f"
  float_of_int :: "int \<Rightarrow> 'f"
  round_int :: "'f \<Rightarrow> int"
  round_ndigits :: "'f \<Rightarrow> int \<Rightarrow> 'f"

text \<open>
  An exact instance over the rationals, with Python's rounding of ties to even. It is
  used to run the model on concrete requests.
\<close>

definition round_half_even :: "rat \<Rightarrow> int" where
  "round_half_even x =
     (let f = \<lfloor>x\<rfloor>; d = x - of_int f
      in if d < 1 / 2 then f
         else if 1 / 2 < d then f + 1
         else if even f then f else f + 1)"

definition exact_ops :: "rat float_ops" where
  "exact_ops =
     \<lparr>int_truediv = (\<lambda>a b. of_int a / of_int b),
      float_mul = (\<lambda>x y. x * y),
      float_of_int = of_int,
      round_int = round_half_even,
      round_ndigits = (\<lambda>x n.
        if 0 \<le> n then of_int (round_half_even (x * 10 ^ nat n)) / 10 ^ nat n
        else of_int (round_half_even (x / 10 ^ nat (- n))) * 10 ^ nat (- n))\<rparr>"

section \<open>Request, session, messages and responses\<close>

datatype http_method = GET | HEAD | POST

text \<open>
  The decorators \<open>login_required\<close> and \<open>student_required\<close> let only a logged-in
  student through: the model starts inside the view, with \<open>request.user.student\<close>
  given. \<open>post_answer\<close> is the field \<open>answer\<close> of \<open>request.POST\<close> (\<open>None\<close> when it is
  missing or is not a key).
\<close>

record request =
  request_method :: http_method
  request_student :: pk
  post_answer :: "pk option"

datatype level = WARNING | SUCCESS

text \<open>The four message texts of the view, with the values they are formatted from.\<close>

datatype 'f message_text =
    Correct_score int
  | Wrong_score int
  | Better_luck string 'f
  | Congratulations string 'f

text \<open>
  What a request can change: the database, the session dictionary
  \<open>request.session\<close> of the requesting student and the messages queued for that
  student by \<open>django.contrib.messages\<close>.
\<close>

record 'f state =
  db :: "'f database"
  session :: "string \<rightharpoonup> int"
  messages :: "(level \<times> 'f message_text) list"

datatype take_quiz_form = Unbound_form question | Bound_form question "pk option"

datatype response =
    Render_taken_quiz
  | Render_take_quiz_form quiz question take_quiz_form int
  | Redirect_take_quiz pk
  | Redirect_quiz_list

datatype exn =
    Http404
  | ZeroDivisionError
  | AttributeError
  | KeyError
  | DoesNotExist
  | MultipleObjectsReturned
  | StorageFailure

section \<open>Queries\<close>

text \<open>\<open>get_object_or_404(Quiz, pk=pk)\<close>: the row with this primary key, if any.\<close>

definition get_quiz :: "'f database \<Rightarrow> pk \<Rightarrow> quiz option" where
  "get_quiz d pk = find (\<lambda>q. quiz_id q = pk) (quizzes d)"

text \<open>
  \<open>student.quizzes\<close>: the many-to-many relation through TakenQuiz, that is the Quiz
  rows joined with the TakenQuiz rows of the student.
\<close>

definition student_quizzes :: "'f database \<Rightarrow> pk \<Rightarrow> quiz list" where
  "student_quizzes d student =
     [q. t \<leftarrow> taken_quizzes d, tq_student t = student, q \<leftarrow> quizzes d, quiz_id q = tq_quiz t]"

text \<open>\<open>student.quizzes.filter(pk=pk).exists()\<close>.\<close>

definition student_quizzes_exists :: "'f database \<Rightarrow> pk \<Rightarrow> pk \<Rightarrow> bool" where
  "student_quizzes_exists d student pk =
     (filter (\<lambda>q. quiz_id q = pk) (student_quizzes d student) \<noteq> [])"

text \<open>\<open>quiz.questions\<close> and \<open>question.answers\<close>: the reverse foreign keys.\<close>

definition quiz_questions :: "'f database \<Rightarrow> pk \<Rightarrow> question list" where
  "quiz_questions d qz = filter (\<lambda>q. question_quiz q = qz) (questions d)"

definition question_answers :: "'f database \<Rightarrow> pk \<Rightarrow> answer list" where
  "question_answers d qn = filter (\<lambda>a. answer_question a = qn) (answers d)"

text \<open>
  \<open>student.quiz_answers.filter(answer__question__quiz=quiz)\<close>: the student's
  StudentAnswer rows joined with their Answer and its Question.
\<close>

definition quiz_answers ::
  "'f database \<Rightarrow> pk \<Rightarrow> pk \<Rightarrow> (student_answer \<times> answer \<times> question) list" where
  "quiz_answers d student qz =
     [(sa, a, q).
        sa \<leftarrow> student_answers d, sa_student sa = student,
        a \<leftarrow> answers d, answer_id a = sa_answer sa,
        q \<leftarrow> questions d, question_id q = answer_question a, question_quiz q = qz]"

text \<open>The same with \<open>answer__is_correct=True\<close>, counted.\<close>

definition count_correct_answers :: "'f database \<Rightarrow> pk \<Rightarrow> pk \<Rightarrow> nat" where
  "count_correct_answers d student qz =
     length (filter (\<lambda>(sa, a, q). is_correct a) (quiz_answers d student qz))"

text \<open>
  Modelled from the spec: \<open>Student.get_unanswered_questions\<close> is defined in
  \<open>classroom/models.py\<close>, which is not among the sources. The spec determines the
  unanswered questions "by set-difference between the quiz's question set and the
  student's already-submitted-answer set for that quiz", the current question being
  the first of them in the quiz's order.
\<close>

definition get_unanswered_questions :: "'f database \<Rightarrow> pk \<Rightarrow> pk \<Rightarrow> question list" where
  "get_unanswered_questions d student qz =
     (let answered_questions = map (\<lambda>(sa, a, q). question_id q) (quiz_answers d student qz)
      in filter (\<lambda>q. question_id q \<notin> set answered_questions) (quiz_questions d qz))"

text \<open>\<open>QuerySet.first()\<close>: the first row, or \<open>None\<close>.\<close>

definition first :: "'a list \<Rightarrow> 'a option" where
  "first xs = (case xs of [] \<Rightarrow> None | x # _ \<Rightarrow> Some x)"

text \<open>
  Modelled from the spec: \<open>TakeQuizForm\<close> is defined in \<open>classroom/forms.py\<close>, which is
  not among the sources. By the spec a submission is invalid when the "chosen answer
  id does not belong to the current question's answer set", or the form data is
  malformed. \<open>cleaned_answer\<close> is the chosen answer of a valid form, \<open>None\<close> for an
  invalid one.
\<close>

definition cleaned_answer :: "'f database \<Rightarrow> take_quiz_form \<Rightarrow> pk option" where
  "cleaned_answer d form =
     (case form of
        Unbound_form question \<Rightarrow> None
      | Bound_form question None \<Rightarrow> None
      | Bound_form question (Some a) \<Rightarrow>
          if a \<in> set (map answer_id (question_answers d (question_id question)))
          then Some a else None)"

text \<open>
  \<open>QuizListView.get_queryset\<close>: the quizzes offered to a student, those of a subject
  of interest that the student has not taken and that have a question.
\<close>

definition quiz_list_queryset :: "'f database \<Rightarrow> pk \<Rightarrow> quiz list" where
  "quiz_list_queryset d student =
     (let student_interests = map snd (filter (\<lambda>(s, subject). s = student) (interests d));
          taken_quizzes = map quiz_id (student_quizzes d student)
      in filter (\<lambda>q. quiz_subject q \<in> set student_interests
                   \<and> quiz_id q \<notin> set taken_quizzes
                   \<and> 0 < length (quiz_questions d (quiz_id q)))
           (quizzes d))"

section \<open>Session keys\<close>

text \<open>\<open>str(quiz.id)\<close>: the decimal digits of a non-negative int.\<close>

definition digit_char :: "nat \<Rightarrow> char" where
  "digit_char d = char_of (48 + d)"

fun str :: "nat \<Rightarrow> string" where
  "str n = (if n < 10 then [digit_char n] else str (n div 10) @ [digit_char (n mod 10)])"

declare str.simps [simp del]

definition temp_score_name :: "pk \<Rightarrow> string" where
  "temp_score_name quiz_pk = ''temp_score_'' @ str quiz_pk"

definition next_exponent_name :: "pk \<Rightarrow> string" where
  "next_exponent_name quiz_pk = ''next_exponent_'' @ str quiz_pk"

text \<open>\<open>request.session.get(key, default)\<close>.\<close>

definition session_get :: "(string \<rightharpoonup> int) \<Rightarrow> string \<Rightarrow> int \<Rightarrow> int" where
  "session_get s key dflt = (case s key of None \<Rightarrow> dflt | Some v \<Rightarrow> v)"

text \<open>The running score and the streak exponent of a quiz, as the view reads them.\<close>

definition session_score_state :: "(string \<rightharpoonup> int) \<Rightarrow> pk \<Rightarrow> int \<times> int" where
  "session_score_state s quiz_pk =
     (session_get s (temp_score_name quiz_pk) 0, session_get s (next_exponent_name quiz_pk) 1)"

section \<open>The view \<open>take_quiz\<close>\<close>

subsection \<open>The two writes\<close>

text \<open>\<open>student_answer.save()\<close>: a new StudentAnswer row of the student.\<close>

definition save_student_answer :: "'f database \<Rightarrow> pk \<Rightarrow> pk \<Rightarrow> 'f database" where
  "save_student_answer d student chosen =
     d\<lparr>student_answers := student_answers d @ [\<lparr>sa_student = student, sa_answer = chosen\<rparr>]\<rparr>"

text \<open>\<open>TakenQuiz.objects.create(student=student, quiz=quiz, score=score)\<close>.\<close>

definition create_taken_quiz :: "'f database \<Rightarrow> pk \<Rightarrow> pk \<Rightarrow> 'f \<Rightarrow> 'f database" where
  "create_taken_quiz d student qz score =
     d\<lparr>taken_quizzes := taken_quizzes d @
          [\<lparr>tq_student = student, tq_quiz = qz, tq_score = score\<rparr>]\<rparr>"

subsection \<open>The scoring rule\<close>

text \<open>
  Lines 111 to 149 of the view: the session names of the quiz, the two reads with
  their defaults, the write-back of \<open>temp_score\<close> (the view writes it twice and never
  writes the exponent back there), then the branch on the answer. The message shows
  \<open>request.session[temp_score_name]\<close>, read back from the session (a \<open>KeyError\<close> if
  the key were absent). \<open>2 ** next_exponent\<close> is the int power for an exponent that
  is not negative; for a negative one Python gives a float, which the model does not
  follow: the theorems on the correct branch assume \<open>0 \<le> next_exponent\<close>, and the view
  itself only ever stores exponents from 1 upwards.
\<close>

definition update_session_score ::
  "pk \<Rightarrow> bool \<Rightarrow> 'f state \<Rightarrow> (exn + unit) \<times> 'f state" where
  "update_session_score quiz_pk is_right st =
     (let tn = temp_score_name quiz_pk;
          en = next_exponent_name quiz_pk;
          temp_score = session_get (session st) tn 0;
          s1 = (session st)(tn \<mapsto> temp_score);
          next_exponent = session_get s1 en 1;
          s2 = s1(tn \<mapsto> temp_score);
          s3 = (if is_right
                then (s2(tn \<mapsto> temp_score + 2 ^ nat next_exponent))(en \<mapsto> next_exponent + 1)
                else (s2(tn \<mapsto> temp_score - 2))(en \<mapsto> 1))
      in case s3 tn of
           None \<Rightarrow> (Inl KeyError, st\<lparr>session := s3\<rparr>)
         | Some shown \<Rightarrow>
             (Inr (),
              st\<lparr>session := s3,
                 messages := messages st @
                   [(WARNING, if is_right then Correct_score shown else Wrong_score shown)]\<rparr>))"

subsection \<open>The transaction\<close>

text \<open>
  The database operations inside \<open>with transaction.atomic()\<close>, in the order of the
  view. A storage failure is a parameter of the model: \<open>fault\<close> names the operation
  at which the database fails (\<open>None\<close>: it does not fail), and the operation then
  raises \<open>StorageFailure\<close>.
\<close>

datatype txn_step =
    Save_student_answer
  | Get_correct_answer
  | Count_correct
  | Unanswered_exists
  | Count_correct_final
  | Create_taken_quiz

text \<open>
  Line 162, for a quiz that has a question:
  \<open>round((correct_answers / total_questions) * 100.0, 2)\<close>.
\<close>

definition percent_score :: "'f float_ops \<Rightarrow> int \<Rightarrow> int \<Rightarrow> 'f" where
  "percent_score fops correct_answers total_questions =
     round_ndigits fops
       (float_mul fops (int_truediv fops correct_answers total_questions)
          (float_of_int fops 100)) 2"

text \<open>
  Lines 99 to 168, the body of the \<open>with\<close> block for a valid form: the chosen answer
  is saved, the correct answer of the question is fetched (\<open>Answer.objects.get\<close>
  raises when there is none or more than one), the session is updated, and either
  the view redirects to the next question or it computes the score, creates the
  TakenQuiz and queues the final message. The \<open>print\<close> calls are left out.
\<close>

definition answer_submission ::
  "('f::linorder) float_ops \<Rightarrow> txn_step option \<Rightarrow> pk \<Rightarrow> pk \<Rightarrow> quiz \<Rightarrow> question \<Rightarrow> pk \<Rightarrow> int
     \<Rightarrow> 'f state \<Rightarrow> (exn + response) \<times> 'f state" where
  "answer_submission fops fault student pk quiz question chosen total_questions st =
     (if fault = Some Save_student_answer then (Inl StorageFailure, st) else
      let st1 = st\<lparr>db := save_student_answer (db st) student chosen\<rparr> in
      if fault = Some Get_correct_answer then (Inl StorageFailure, st1) else
      (case filter (\<lambda>a. answer_question a = question_id question \<and> is_correct a)
              (answers (db st1)) of
         [] \<Rightarrow> (Inl DoesNotExist, st1)
       | correct_answer # others \<Rightarrow>
           if others \<noteq> [] then (Inl MultipleObjectsReturned, st1) else
           (case update_session_score (quiz_id quiz) (chosen = answer_id correct_answer) st1 of
              (Inl e, st2) \<Rightarrow> (Inl e, st2)
            | (Inr _, st2) \<Rightarrow>
                if fault = Some Count_correct then (Inl StorageFailure, st2) else
                if fault = Some Unanswered_exists then (Inl StorageFailure, st2) else
                if get_unanswered_questions (db st2) student (quiz_id quiz) \<noteq> []
                then (Inr (Redirect_take_quiz pk), st2) else
                if fault = Some Count_correct_final then (Inl StorageFailure, st2) else
                let correct_answers =
                      int (count_correct_answers (db st2) student (quiz_id quiz))
                in
                if total_questions = 0 then (Inl ZeroDivisionError, st2) else
                let score = percent_score fops correct_answers total_questions in
                if fault = Some Create_taken_quiz then (Inl StorageFailure, st2) else
                let st3 = st2\<lparr>db := create_taken_quiz (db st2) student (quiz_id quiz) score\<rparr>;
                    st4 = st3\<lparr>messages := messages st3 @
                            [if score < float_of_int fops 50
                             then (WARNING, Better_luck (quiz_name quiz) score)
                             else (SUCCESS, Congratulations (quiz_name quiz) score)]\<rparr>
                in (Inr Redirect_quiz_list, st4))))"

text \<open>
  \<open>with transaction.atomic()\<close>: when the body raises, the database is rolled back to
  what it was on entry and the exception goes on; the session and the queued messages
  are not part of the transaction. Leaving the block by \<open>return\<close> commits.
\<close>

definition atomic ::
  "('f state \<Rightarrow> (exn + 'a) \<times> 'f state) \<Rightarrow> 'f state \<Rightarrow> (exn + 'a) \<times> 'f state" where
  "atomic body st =
     (case body st of
        (Inl e, st') \<Rightarrow> (Inl e, st'\<lparr>db := db st\<rparr>)
      | (Inr r, st') \<Rightarrow> (Inr r, st'))"

subsection \<open>The view\<close>

text \<open>
  Line 89, for a quiz that has a question:
  \<open>100 - round(((total_unanswered_questions - 1) / total_questions) * 100)\<close>.
\<close>

definition progress_percent :: "'f float_ops \<Rightarrow> int \<Rightarrow> int \<Rightarrow> int" where
  "progress_percent fops total_unanswered_questions total_questions =
     100 - round_int fops
       (float_mul fops (int_truediv fops (total_unanswered_questions - 1) total_questions)
          (float_of_int fops 100))"

text \<open>
  Lines 79 to 177. The result is the response or the exception that leaves the view,
  with the state after the request. The division of line 89 raises for a quiz with no
  question. The form is built for the current question: without one (no unanswered
  question left) building it fails, modelled as the \<open>AttributeError\<close> that line 107
  raises on \<open>question.id\<close>. Every method but POST takes the \<open>else\<close> branch.
\<close>

definition take_quiz ::
  "('f::linorder) float_ops \<Rightarrow> txn_step option \<Rightarrow> request \<Rightarrow> pk \<Rightarrow> 'f state
     \<Rightarrow> (exn + response) \<times> 'f state" where
  "take_quiz fops fault request pk st =
     (case get_quiz (db st) pk of
        None \<Rightarrow> (Inl Http404, st)
      | Some quiz \<Rightarrow>
          let student = request_student request in
          if student_quizzes_exists (db st) student pk then (Inr Render_taken_quiz, st) else
          let total_questions = int (length (quiz_questions (db st) (quiz_id quiz)));
              unanswered_questions = get_unanswered_questions (db st) student (quiz_id quiz);
              total_unanswered_questions = int (length unanswered_questions)
          in
          if total_questions = 0 then (Inl ZeroDivisionError, st) else
          let progress = progress_percent fops total_unanswered_questions total_questions in
          (case first unanswered_questions of
             None \<Rightarrow> (Inl AttributeError, st)
           | Some question \<Rightarrow>
               if request_method request = POST then
                 let form = Bound_form question (post_answer request) in
                 (case cleaned_answer (db st) form of
                    Some chosen \<Rightarrow>
                      atomic (answer_submission fops fault student pk quiz question chosen
                                total_questions) st
                  | None \<Rightarrow> (Inr (Render_take_quiz_form quiz question form progress), st))
               else
                 (Inr (Render_take_quiz_form quiz question (Unbound_form question) progress),
                  st)))"

section \<open>Vocabulary of the properties\<close>

text \<open>
  When a request is an answer submission that the view grades, and whether the chosen
  answer is the correct answer of the current question: the quiz exists, the student
  has not taken it, the method is POST, there is a current question, the form is
  valid and the question has exactly one correct answer. \<open>None\<close>: the request is not
  graded.
\<close>

definition graded :: "'f database \<Rightarrow> request \<Rightarrow> pk \<Rightarrow> bool option" where
  "graded d request pk =
     (case get_quiz d pk of
        None \<Rightarrow> None
      | Some quiz \<Rightarrow>
          if student_quizzes_exists d (request_student request) pk
             \<or> request_method request \<noteq> POST
          then None
          else
            (case first (get_unanswered_questions d (request_student request) (quiz_id quiz)) of
               None \<Rightarrow> None
             | Some question \<Rightarrow>
                 (case cleaned_answer d (Bound_form question (post_answer request)) of
                    None \<Rightarrow> None
                  | Some chosen \<Rightarrow>
                      (case filter (\<lambda>a. answer_question a = question_id question \<and> is_correct a)
                              (answers d) of
                         [correct_answer] \<Rightarrow> Some (chosen = answer_id correct_answer)
                       | _ \<Rightarrow> None))))"

text \<open>The scoring rule on the pair (running score, streak exponent).\<close>

definition scored :: "bool \<Rightarrow> int \<times> int \<Rightarrow> int \<times> int" where
  "scored is_right te =
     (if is_right then (fst te + 2 ^ nat (snd te), snd te + 1) else (fst te - 2, 1))"

text \<open>The POST of a student that chooses the answer \<open>a\<close>.\<close>

definition submission :: "pk \<Rightarrow> pk \<Rightarrow> request" where
  "submission student a =
     \<lparr>request_method = POST, request_student = student, post_answer = Some a\<rparr>"

text \<open>
  An attempt: the answers one student submits to one quiz, served one after the other
  with no storage failure; and the attempts in which every submission is graded as
  correct in the state it meets.
\<close>

fun attempt ::
  "('f::linorder) float_ops \<Rightarrow> pk \<Rightarrow> pk \<Rightarrow> pk list \<Rightarrow> 'f state \<Rightarrow> 'f state" where
  "attempt fops student pk [] st = st"
| "attempt fops student pk (a # as) st =
     attempt fops student pk as (snd (take_quiz fops None (submission student a) pk st))"

fun all_correct ::
  "('f::linorder) float_ops \<Rightarrow> pk \<Rightarrow> pk \<Rightarrow> pk list \<Rightarrow> 'f state \<Rightarrow> bool" where
  "all_correct fops student pk [] st = True"
| "all_correct fops student pk (a # as) st =
     (graded (db st) (submission student a) pk = Some True
      \<and> all_correct fops student pk as (snd (take_quiz fops None (submission student a) pk st)))"

text \<open>The invariant of the spec: a student has at most one TakenQuiz of a quiz.\<close>

definition one_taken_quiz_each :: "'f database \<Rightarrow> bool" where
  "one_taken_quiz_each d = distinct (map (\<lambda>t. (tq_student t, tq_quiz t)) (taken_quizzes d))"

subsection \<open>A small classroom\<close>

text \<open>
  Student 7 is interested in subject 3. Quiz 4 has two questions with two answers
  each, the first of each being the correct one; quiz 5 has no question yet.
\<close>

definition classroom :: "rat database" where
  "classroom =
     \<lparr>quizzes = [\<lparr>quiz_id = 4, quiz_name = ''Sums'', quiz_subject = 3\<rparr>,
                 \<lparr>quiz_id = 5, quiz_name = ''Draft'', quiz_subject = 3\<rparr>],
      questions = [\<lparr>question_id = 41, question_quiz = 4\<rparr>,
                   \<lparr>question_id = 42, question_quiz = 4\<rparr>],
      answers = [\<lparr>answer_id = 411, answer_question = 41, is_correct = True\<rparr>,
                 \<lparr>answer_id = 412, answer_question = 41, is_correct = False\<rparr>,
                 \<lparr>answer_id = 421, answer_question = 42, is_correct = True\<rparr>,
                 \<lparr>answer_id = 422, answer_question = 42, is_correct = False\<rparr>],
      student_answers = [],
      taken_quizzes = [],
      interests = [(7, 3)]\<rparr>"

definition fresh :: "rat state" where
  "fresh = \<lparr>db = classroom, session = Map.empty, messages = []\<rparr>"

definition submit :: "pk \<Rightarrow> request" where
  "submit a = submission 7 a"

definition fetch :: request where
  "fetch = \<lparr>request_method = GET, request_student = 7, post_answer = None\<rparr>"

text \<open>The state after student 7 has answered the first question of quiz 4 correctly.\<close>

definition first_right :: "rat state" where
  "first_right =
     \<lparr>db = save_student_answer classroom 7 411,
      session = [temp_score_name 4 \<mapsto> 2, next_exponent_name 4 \<mapsto> 2],
      messages = [(WARNING, Correct_score 2)]\<rparr>"

text \<open>
  The state after the second question has been answered wrongly: the quiz is taken,
  with one answer of two correct.
\<close>

definition completed :: "rat state" where
  "completed =
     \<lparr>db = create_taken_quiz
             (save_student_answer (save_student_answer classroom 7 411) 7 422) 7 4 50,
      session = [temp_score_name 4 \<mapsto> 0, next_exponent_name 4 \<mapsto> 1],
      messages = []\<rparr>"

section \<open>Lemmas on the view\<close>

lemma get_quiz_id: "get_quiz d pk = Some quiz \<Longrightarrow> quiz_id quiz = pk"
  by (auto simp: get_quiz_def find_Some_iff)

lemma names_differ [simp]:
  "temp_score_name k \<noteq> next_exponent_name k" "next_exponent_name k \<noteq> temp_score_name k"
  by (simp_all add: temp_score_name_def next_exponent_name_def)

lemma update_session_score_eq:
  "update_session_score k b st =
     (Inr (),
      st\<lparr>session := (session st)
           (temp_score_name k \<mapsto> fst (scored b (session_score_state (session st) k)),
            next_exponent_name k \<mapsto> snd (scored b (session_score_state (session st) k))),
         messages := messages st @
           [(WARNING,
             if b then Correct_score (fst (scored b (session_score_state (session st) k)))
             else Wrong_score (fst (scored b (session_score_state (session st) k))))]\<rparr>)"
  by (auto simp: update_session_score_def session_score_state_def session_get_def Let_def
        fun_upd_twist scored_def
      intro!: state.equality)

lemma session_score_state_upd:
  "session_score_state (s(temp_score_name k \<mapsto> t, next_exponent_name k \<mapsto> e)) k = (t, e)"
  by (simp add: session_score_state_def session_get_def)

lemma first_unanswered_questions:
  "first (get_unanswered_questions d s qz) = Some q \<Longrightarrow> quiz_questions d qz \<noteq> []"
  by (auto simp: first_def get_unanswered_questions_def Let_def split: list.splits)

lemma atomic_Inr: "fst (body st) = Inr r \<Longrightarrow> atomic body st = body st"
  by (cases "body st") (auto simp: atomic_def)

text \<open>A graded request reaches the transaction.\<close>

lemma take_quiz_graded:
  assumes "graded (db st) request pk = Some b"
  shows "\<exists>quiz question chosen c.
           get_quiz (db st) pk = Some quiz
         \<and> quiz_id quiz = pk
         \<and> \<not> student_quizzes_exists (db st) (request_student request) pk
         \<and> request_method request = POST
         \<and> first (get_unanswered_questions (db st) (request_student request) pk) = Some question
         \<and> cleaned_answer (db st) (Bound_form question (post_answer request)) = Some chosen
         \<and> filter (\<lambda>a. answer_question a = question_id question \<and> is_correct a)
              (answers (db st)) = [c]
         \<and> b = (chosen = answer_id c)
         \<and> quiz_questions (db st) pk \<noteq> []
         \<and> take_quiz fops fault request pk st =
             atomic (answer_submission fops fault (request_student request) pk quiz question
                       chosen (int (length (quiz_questions (db st) pk)))) st"
proof -
  from assms obtain quiz where q: "get_quiz (db st) pk = Some quiz"
    by (auto simp: graded_def split: option.splits)
  then have id: "quiz_id quiz = pk" by (rule get_quiz_id)
  from assms q id have nt: "\<not> student_quizzes_exists (db st) (request_student request) pk"
    and m: "request_method request = POST"
    by (auto simp: graded_def split: if_splits)
  from assms q id nt m obtain question where
    f: "first (get_unanswered_questions (db st) (request_student request) pk) = Some question"
    by (auto simp: graded_def split: option.splits)
  from assms q id nt m f obtain chosen where
    c: "cleaned_answer (db st) (Bound_form question (post_answer request)) = Some chosen"
    by (auto simp: graded_def split: option.splits)
  from assms q id nt m f c obtain c' where
    g: "filter (\<lambda>a. answer_question a = question_id question \<and> is_correct a)
          (answers (db st)) = [c']"
    and b: "b = (chosen = answer_id c')"
    by (auto simp: graded_def split: list.splits)
  from f have ne: "quiz_questions (db st) pk \<noteq> []" by (rule first_unanswered_questions)
  have "take_quiz fops fault request pk st =
          atomic (answer_submission fops fault (request_student request) pk quiz question
                    chosen (int (length (quiz_questions (db st) pk)))) st"
    using q id nt m f c ne by (simp add: take_quiz_def Let_def)
  with q id nt m f c g b ne show ?thesis by blast
qed

text \<open>The transaction when the database does not fail.\<close>

lemma answer_submission_no_fault:
  assumes "filter (\<lambda>a. answer_question a = question_id question \<and> is_correct a)
             (answers (db st)) = [c]"
    and "total_questions \<noteq> 0"
  shows "answer_submission fops None student pk quiz question chosen total_questions st =
     (let d1 = save_student_answer (db st) student chosen;
          st2 = snd (update_session_score (quiz_id quiz) (chosen = answer_id c) st);
          score = percent_score fops (int (count_correct_answers d1 student (quiz_id quiz)))
                    total_questions
      in if get_unanswered_questions d1 student (quiz_id quiz) \<noteq> []
         then (Inr (Redirect_take_quiz pk), st2\<lparr>db := d1\<rparr>)
         else (Inr Redirect_quiz_list,
               st2\<lparr>db := create_taken_quiz d1 student (quiz_id quiz) score,
                   messages := messages st2 @
                     [if score < float_of_int fops 50
                      then (WARNING, Better_luck (quiz_name quiz) score)
                      else (SUCCESS, Congratulations (quiz_name quiz) score)]\<rparr>))"
proof -
  have a: "answers (save_student_answer (db st) student chosen) = answers (db st)"
    by (simp add: save_student_answer_def)
  show ?thesis
    using assms by (simp add: answer_submission_def a update_session_score_eq Let_def)
qed

lemma take_quiz_graded_result:
  assumes "graded (db st) request pk = Some b"
  shows "\<exists>quiz question chosen c.
           get_quiz (db st) pk = Some quiz
         \<and> quiz_id quiz = pk
         \<and> first (get_unanswered_questions (db st) (request_student request) pk) = Some question
         \<and> cleaned_answer (db st) (Bound_form question (post_answer request)) = Some chosen
         \<and> filter (\<lambda>a. answer_question a = question_id question \<and> is_correct a)
              (answers (db st)) = [c]
         \<and> b = (chosen = answer_id c)
         \<and> take_quiz fops None request pk st =
     (let student = request_student request;
          d1 = save_student_answer (db st) student chosen;
          st2 = snd (update_session_score pk b st);
          score = percent_score fops (int (count_correct_answers d1 student pk))
                    (int (length (quiz_questions (db st) pk)))
      in if get_unanswered_questions d1 student pk \<noteq> []
         then (Inr (Redirect_take_quiz pk), st2\<lparr>db := d1\<rparr>)
         else (Inr Redirect_quiz_list,
               st2\<lparr>db := create_taken_quiz d1 student pk score,
                   messages := messages st2 @
                     [if score < float_of_int fops 50
                      then (WARNING, Better_luck (quiz_name quiz) score)
                      else (SUCCESS, Congratulations (quiz_name quiz) score)]\<rparr>))"
proof -
  from take_quiz_graded [OF assms, of fops None]
  obtain quiz question chosen c where
    q: "get_quiz (db st) pk = Some quiz" and id: "quiz_id quiz = pk"
    and f: "first (get_unanswered_questions (db st) (request_student request) pk) = Some question"
    and ca: "cleaned_answer (db st) (Bound_form question (post_answer request)) = Some chosen"
    and g: "filter (\<lambda>a. answer_question a = question_id question \<and> is_correct a)
              (answers (db st)) = [c]"
    and b: "b = (chosen = answer_id c)"
    and ne: "quiz_questions (db st) pk \<noteq> []"
    and t: "take_quiz fops None request pk st =
             atomic (answer_submission fops None (request_student request) pk quiz question
                       chosen (int (length (quiz_questions (db st) pk)))) st"
    by blast
  from ne have tot: "int (length (quiz_questions (db st) pk)) \<noteq> 0" by simp
  note body = answer_submission_no_fault
    [OF g tot, of fops "request_student request" pk quiz chosen]
  have "\<exists>r. fst (answer_submission fops None (request_student request) pk quiz question chosen
                    (int (length (quiz_questions (db st) pk))) st) = Inr r"
    unfolding body by (simp add: Let_def)
  then have "atomic (answer_submission fops None (request_student request) pk quiz question
                       chosen (int (length (quiz_questions (db st) pk)))) st
           = answer_submission fops None (request_student request) pk quiz question chosen
               (int (length (quiz_questions (db st) pk))) st"
    by (auto intro: atomic_Inr)
  with t body have "take_quiz fops None request pk st =
     (let student = request_student request;
          d1 = save_student_answer (db st) student chosen;
          st2 = snd (update_session_score pk b st);
          score = percent_score fops (int (count_correct_answers d1 student pk))
                    (int (length (quiz_questions (db st) pk)))
      in if get_unanswered_questions d1 student pk \<noteq> []
         then (Inr (Redirect_take_quiz pk), st2\<lparr>db := d1\<rparr>)
         else (Inr Redirect_quiz_list,
               st2\<lparr>db := create_taken_quiz d1 student pk score,
                   messages := messages st2 @
                     [if score < float_of_int fops 50
                      then (WARNING, Better_luck (quiz_name quiz) score)
                      else (SUCCESS, Congratulations (quiz_name quiz) score)]\<rparr>))"
    by (simp add: id b Let_def)
  with q id f ca g b show ?thesis by blast
qed

text \<open>A graded request applies the scoring rule to the session of the quiz.\<close>

lemma take_quiz_graded_session:
  assumes "graded (db st) request pk = Some b"
  shows "session_score_state (session (snd (take_quiz fops None request pk st))) pk
           = scored b (session_score_state (session st) pk)"
proof -
  from take_quiz_graded_result [OF assms, of fops]
  have "session (snd (take_quiz fops None request pk st))
          = session (snd (update_session_score pk b st))"
    by (auto simp: Let_def)
  then show ?thesis
    by (simp add: update_session_score_eq session_score_state_upd)
qed

text \<open>A streak of correct answers, from any running score and exponent.\<close>

lemma streak:
  assumes "all_correct fops student pk chosen st"
    and "session_score_state (session st) pk = (t, e)" and "0 \<le> e"
  shows "session_score_state (session (attempt fops student pk chosen st)) pk
           = (t + 2 ^ nat e * (2 ^ length chosen - 1), e + int (length chosen))"
  using assms
proof (induction chosen arbitrary: st t e)
  case Nil
  then show ?case by simp
next
  case (Cons a as)
  let ?r = "submission student a"
  from Cons.prems(1) have g: "graded (db st) ?r pk = Some True"
    and rest: "all_correct fops student pk as (snd (take_quiz fops None ?r pk st))"
    by simp_all
  have s: "session_score_state (session (snd (take_quiz fops None ?r pk st))) pk
             = (t + 2 ^ nat e, e + 1)"
    using take_quiz_graded_session [OF g, of fops] Cons.prems(2) by (simp add: scored_def)
  have e1: "0 \<le> e + 1" using Cons.prems(3) by simp
  have n: "nat (e + 1) = Suc (nat e)" using Cons.prems(3) by simp
  have "session_score_state (session (attempt fops student pk (a # as) st)) pk
          = (t + 2 ^ nat e + 2 ^ Suc (nat e) * (2 ^ length as - 1), e + 1 + int (length as))"
    using Cons.IH [OF rest s e1] by (simp only: n attempt.simps)
  also have "t + 2 ^ nat e + 2 ^ Suc (nat e) * (2 ^ length as - 1)
          = t + 2 ^ nat e * (2 ^ length (a # as) - (1::int))"
    by (simp add: algebra_simps)
  also have "e + 1 + int (length as) = e + int (length (a # as))" by simp
  finally show ?case .
qed

lemma quiz_answers_save:
  "quiz_answers (save_student_answer d s a) s qz =
     quiz_answers d s qz @
       [(\<lparr>sa_student = s, sa_answer = a\<rparr>, a', q).
          a' \<leftarrow> answers d, answer_id a' = a,
          q \<leftarrow> questions d, question_id q = answer_question a', question_quiz q = qz]"
  by (simp add: quiz_answers_def save_student_answer_def cong: if_cong)

lemma quiz_questions_save [simp]:
  "quiz_questions (save_student_answer d s a) qz = quiz_questions d qz"
  by (simp add: quiz_questions_def save_student_answer_def)

lemma answered_after_save:
  assumes "cleaned_answer d (Bound_form question data) = Some chosen"
    and "question \<in> set (quiz_questions d qz)"
  shows "question_id question
           \<in> set (map (\<lambda>(sa, a, q). question_id q)
                    (quiz_answers (save_student_answer d s chosen) s qz))"
proof -
  from assms(1) obtain a' where a': "a' \<in> set (answers d)"
    "answer_question a' = question_id question" "answer_id a' = chosen"
    by (auto simp: cleaned_answer_def question_answers_def split: option.splits if_splits)
  from assms(2) have q: "question \<in> set (questions d)" "question_quiz question = qz"
    by (auto simp: quiz_questions_def)
  have "(\<lparr>sa_student = s, sa_answer = chosen\<rparr>, a', question)
          \<in> set (quiz_answers (save_student_answer d s chosen) s qz)"
    using a' q by (auto simp: quiz_answers_save)
  then show ?thesis by force
qed

lemma unanswered_after_save:
  "set (get_unanswered_questions (save_student_answer d s a) s qz)
     \<subseteq> set (get_unanswered_questions d s qz)"
  by (auto simp: get_unanswered_questions_def quiz_answers_save Let_def)

text \<open>Answering the only unanswered question leaves none.\<close>

lemma last_question_answered:
  assumes "cleaned_answer d (Bound_form question data) = Some chosen"
    and "first (get_unanswered_questions d s qz) = Some question"
    and "length (get_unanswered_questions d s qz) = 1"
  shows "get_unanswered_questions (save_student_answer d s chosen) s qz = []"
proof -
  from assms(2,3) have u: "get_unanswered_questions d s qz = [question]"
    by (cases "get_unanswered_questions d s qz") (auto simp: first_def)
  then have "question \<in> set (get_unanswered_questions d s qz)" by simp
  then have "question \<in> set (quiz_questions d qz)"
    by (simp add: get_unanswered_questions_def Let_def)
  from answered_after_save [OF assms(1) this, of s]
  have "question \<notin> set (get_unanswered_questions (save_student_answer d s chosen) s qz)"
    by (simp add: get_unanswered_questions_def Let_def)
  with unanswered_after_save [of d s chosen qz] u show ?thesis
    by (cases "get_unanswered_questions (save_student_answer d s chosen) s qz") auto
qed

lemma cleaned_answer_post:
  "cleaned_answer d (Bound_form question data) = Some chosen \<Longrightarrow> data = Some chosen"
  by (auto simp: cleaned_answer_def split: option.splits if_splits)

text \<open>The completing submission.\<close>

lemma take_quiz_completing:
  assumes "graded (db st) request pk = Some b"
    and "length (get_unanswered_questions (db st) (request_student request) pk) = 1"
  shows "\<exists>quiz chosen.
           get_quiz (db st) pk = Some quiz
         \<and> post_answer request = Some chosen
         \<and> take_quiz fops None request pk st =
     (let student = request_student request;
          d1 = save_student_answer (db st) student chosen;
          st2 = snd (update_session_score pk b st);
          score = percent_score fops (int (count_correct_answers d1 student pk))
                    (int (length (quiz_questions (db st) pk)))
      in (Inr Redirect_quiz_list,
               st2\<lparr>db := create_taken_quiz d1 student pk score,
                   messages := messages st2 @
                     [if score < float_of_int fops 50
                      then (WARNING, Better_luck (quiz_name quiz) score)
                      else (SUCCESS, Congratulations (quiz_name quiz) score)]\<rparr>))"
proof -
  from take_quiz_graded_result [OF assms(1), of fops]
  obtain quiz question chosen c where
    q: "get_quiz (db st) pk = Some quiz"
    and f: "first (get_unanswered_questions (db st) (request_student request) pk) = Some question"
    and ca: "cleaned_answer (db st) (Bound_form question (post_answer request)) = Some chosen"
    and t: "take_quiz fops None request pk st =
     (let student = request_student request;
          d1 = save_student_answer (db st) student chosen;
          st2 = snd (update_session_score pk b st);
          score = percent_score fops (int (count_correct_answers d1 student pk))
                    (int (length (quiz_questions (db st) pk)))
      in if get_unanswered_questions d1 student pk \<noteq> []
         then (Inr (Redirect_take_quiz pk), st2\<lparr>db := d1\<rparr>)
         else (Inr Redirect_quiz_list,
               st2\<lparr>db := create_taken_quiz d1 student pk score,
                   messages := messages st2 @
                     [if score < float_of_int fops 50
                      then (WARNING, Better_luck (quiz_name quiz) score)
                      else (SUCCESS, Congratulations (quiz_name quiz) score)]\<rparr>))"
    by blast
  from last_question_answered [OF ca f assms(2)]
  have e: "get_unanswered_questions
             (save_student_answer (db st) (request_student request) chosen)
             (request_student request) pk = []" .
  from cleaned_answer_post [OF ca] have p: "post_answer request = Some chosen" .
  from t e have "take_quiz fops None request pk st =
     (let student = request_student request;
          d1 = save_student_answer (db st) student chosen;
          st2 = snd (update_session_score pk b st);
          score = percent_score fops (int (count_correct_answers d1 student pk))
                    (int (length (quiz_questions (db st) pk)))
      in (Inr Redirect_quiz_list,
               st2\<lparr>db := create_taken_quiz d1 student pk score,
                   messages := messages st2 @
                     [if score < float_of_int fops 50
                      then (WARNING, Better_luck (quiz_name quiz) score)
                      else (SUCCESS, Congratulations (quiz_name quiz) score)]\<rparr>))"
    by (simp add: Let_def)
  with q p show ?thesis by blast
qed

lemma taken_quizzes_save [simp]:
  "taken_quizzes (save_student_answer d s a) = taken_quizzes d"
  by (simp add: save_student_answer_def)

lemma answer_submission_db:
  "case answer_submission fops fault student pk quiz question chosen total_questions st of
     (Inl e, st') \<Rightarrow> True
   | (Inr r, st') \<Rightarrow>
       (r = Redirect_take_quiz pk
          \<and> db st' = save_student_answer (db st) student chosen
          \<and> get_unanswered_questions (db st') student (quiz_id quiz) \<noteq> [])
     \<or> (r = Redirect_quiz_list
          \<and> (\<exists>score. db st' = create_taken_quiz (save_student_answer (db st) student chosen)
                                  student (quiz_id quiz) score))"
  by (auto simp: answer_submission_def update_session_score_eq Let_def split: list.splits)

lemma atomic_cases:
  "(\<exists>e st'. body st = (Inl e, st') \<and> atomic body st = (Inl e, st'\<lparr>db := db st\<rparr>))
   \<or> (\<exists>r st'. body st = (Inr r, st') \<and> atomic body st = (Inr r, st'))"
  by (cases "body st"; cases "fst (body st)") (auto simp: atomic_def)

text \<open>Outside the transaction the view changes nothing.\<close>

lemma take_quiz_cases:
  "take_quiz fops fault request pk st = (fst (take_quiz fops fault request pk st), st)
   \<or> (\<exists>quiz question chosen.
         get_quiz (db st) pk = Some quiz
       \<and> quiz_id quiz = pk
       \<and> \<not> student_quizzes_exists (db st) (request_student request) pk
       \<and> request_method request = POST
       \<and> first (get_unanswered_questions (db st) (request_student request) pk) = Some question
       \<and> cleaned_answer (db st) (Bound_form question (post_answer request)) = Some chosen
       \<and> take_quiz fops fault request pk st =
             atomic (answer_submission fops fault (request_student request) pk quiz question
                       chosen (int (length (quiz_questions (db st) pk)))) st)"
proof (cases "get_quiz (db st) pk")
  case None
  then show ?thesis by (simp add: take_quiz_def)
next
  case (Some quiz)
  then have id: "quiz_id quiz = pk" by (rule get_quiz_id)
  show ?thesis
    using Some id
    by (auto simp: take_quiz_def Let_def split: option.splits)
qed

lemma take_quiz_db:
  "case take_quiz fops fault request pk st of
     (Inl e, st') \<Rightarrow> db st' = db st
   | (Inr r, st') \<Rightarrow>
       db st' = db st
     \<or> (\<not> student_quizzes_exists (db st) (request_student request) pk
        \<and> (\<exists>quiz. get_quiz (db st) pk = Some quiz)
        \<and> (\<exists>chosen. post_answer request = Some chosen
            \<and> ((r = Redirect_take_quiz pk
                   \<and> db st' = save_student_answer (db st) (request_student request) chosen)
               \<or> (r = Redirect_quiz_list
                   \<and> (\<exists>score. db st' =
                         create_taken_quiz
                           (save_student_answer (db st) (request_student request) chosen)
                           (request_student request) pk score)))))"
proof -
  from take_quiz_cases [of fops fault request pk st]
  consider (same) "take_quiz fops fault request pk st = (fst (take_quiz fops fault request pk st), st)"
    | (txn) quiz question chosen where
        "quiz_id quiz = pk"
        "\<not> student_quizzes_exists (db st) (request_student request) pk"
        "cleaned_answer (db st) (Bound_form question (post_answer request)) = Some chosen"
        "take_quiz fops fault request pk st =
             atomic (answer_submission fops fault (request_student request) pk quiz question
                       chosen (int (length (quiz_questions (db st) pk)))) st"
        "get_quiz (db st) pk = Some quiz"
    by blast
  then show ?thesis
  proof cases
    case same
    then show ?thesis
      by (cases "fst (take_quiz fops fault request pk st)") (auto split: prod.splits)
  next
    case txn
    note p = cleaned_answer_post [OF txn(3)]
    let ?body = "answer_submission fops fault (request_student request) pk quiz question
                       chosen (int (length (quiz_questions (db st) pk)))"
    from atomic_cases [of ?body st] show ?thesis
    proof (elim disjE exE conjE)
      fix e st'
      assume "?body st = (Inl e, st')" "atomic ?body st = (Inl e, st'\<lparr>db := db st\<rparr>)"
      with txn(4) show ?thesis by simp
    next
      fix r st'
      assume b: "?body st = (Inr r, st')" and a: "atomic ?body st = (Inr r, st')"
      from answer_submission_db [where fops = fops and fault = fault
          and student = "request_student request" and pk = pk and quiz = quiz
          and question = question and chosen = chosen
          and total_questions = "int (length (quiz_questions (db st) pk))" and st = st] b
      have "(r = Redirect_take_quiz pk
          \<and> db st' = save_student_answer (db st) (request_student request) chosen)
        \<or> (r = Redirect_quiz_list
          \<and> (\<exists>score. db st' = create_taken_quiz
                  (save_student_answer (db st) (request_student request) chosen)
                  (request_student request) pk score))"
        by (auto simp: txn(1))
      with txn(2,4,5) a p show ?thesis by auto
    qed
  qed
qed

text \<open>For a quiz that exists, the join is not empty when the student has a TakenQuiz.\<close>

lemma student_quizzes_exists_iff:
  "student_quizzes_exists d s pk \<longleftrightarrow>
     (\<exists>t \<in> set (taken_quizzes d). tq_student t = s \<and> tq_quiz t = pk)
     \<and> (\<exists>q \<in> set (quizzes d). quiz_id q = pk)"
  by (fastforce simp: student_quizzes_exists_def student_quizzes_def filter_empty_conv)

lemma find_Some_ex: "(\<exists>x. find P xs = Some x) \<longleftrightarrow> (\<exists>x \<in> set xs. P x)"
  by (induction xs) auto

lemma get_quiz_Some_iff:
  "(\<exists>quiz. get_quiz d pk = Some quiz) \<longleftrightarrow> (\<exists>q \<in> set (quizzes d). quiz_id q = pk)"
  by (simp add: get_quiz_def find_Some_ex)

lemma one_taken_quiz_each_create:
  assumes "one_taken_quiz_each d" and "\<not> student_quizzes_exists d s pk"
    and "get_quiz d pk = Some quiz"
  shows "one_taken_quiz_each (create_taken_quiz (save_student_answer d s a) s pk score)"
proof -
  from assms(3) have "\<exists>q \<in> set (quizzes d). quiz_id q = pk"
    using get_quiz_Some_iff [of d pk] by blast
  with assms(2) have "(s, pk) \<notin> set (map (\<lambda>t. (tq_student t, tq_quiz t)) (taken_quizzes d))"
    by (auto simp: student_quizzes_exists_iff)
  with assms(1) show ?thesis
    by (simp add: one_taken_quiz_each_def create_taken_quiz_def save_student_answer_def)
qed

lemma one_taken_quiz_each_save:
  "one_taken_quiz_each (save_student_answer d s a) = one_taken_quiz_each d"
  by (simp add: one_taken_quiz_each_def save_student_answer_def)

lemma fault_raises:
  assumes "graded (db st) request pk = Some b"
    and "fault = Some step"
    and "step = Count_correct_final \<or> step = Create_taken_quiz
         \<Longrightarrow> length (get_unanswered_questions (db st) (request_student request) pk) = 1"
  shows "fst (take_quiz fops fault request pk st) = Inl StorageFailure"
proof -
  from take_quiz_graded [OF assms(1), of fops fault]
  obtain quiz question chosen c where
    id: "quiz_id quiz = pk"
    and f: "first (get_unanswered_questions (db st) (request_student request) pk) = Some question"
    and ca: "cleaned_answer (db st) (Bound_form question (post_answer request)) = Some chosen"
    and g: "filter (\<lambda>a. answer_question a = question_id question \<and> is_correct a)
              (answers (db st)) = [c]"
    and ne: "quiz_questions (db st) pk \<noteq> []"
    and t: "take_quiz fops fault request pk st =
             atomic (answer_submission fops fault (request_student request) pk quiz question
                       chosen (int (length (quiz_questions (db st) pk)))) st"
    by blast
  have a: "answers (save_student_answer (db st) (request_student request) chosen)
             = answers (db st)"
    by (simp add: save_student_answer_def)
  have "fst (answer_submission fops fault (request_student request) pk quiz question
               chosen (int (length (quiz_questions (db st) pk))) st) = Inl StorageFailure"
  proof (cases step)
    case Save_student_answer
    with assms(2) show ?thesis by (simp add: answer_submission_def Let_def)
  next
    case Get_correct_answer
    with assms(2) show ?thesis by (simp add: answer_submission_def Let_def)
  next
    case Count_correct
    with assms(2) g show ?thesis
      by (simp add: answer_submission_def a update_session_score_eq Let_def)
  next
    case Unanswered_exists
    with assms(2) g show ?thesis
      by (simp add: answer_submission_def a update_session_score_eq Let_def)
  next
    case Count_correct_final
    with assms(3) have "length (get_unanswered_questions (db st) (request_student request) pk) = 1"
      by simp
    from last_question_answered [OF ca f this] Count_correct_final assms(2) g id show ?thesis
      by (simp add: answer_submission_def a update_session_score_eq Let_def)
  next
    case Create_taken_quiz
    with assms(3) have "length (get_unanswered_questions (db st) (request_student request) pk) = 1"
      by simp
    from last_question_answered [OF ca f this] Create_taken_quiz assms(2) g id ne show ?thesis
      by (simp add: answer_submission_def a update_session_score_eq Let_def)
  qed
  with t show ?thesis
    by (cases "answer_submission fops fault (request_student request) pk quiz question
               chosen (int (length (quiz_questions (db st) pk))) st")
       (simp add: atomic_def)
qed

lemma percent_score_round_int:
  "percent_score (fops\<lparr>round_int := other\<rparr>) = percent_score fops"
  by (intro ext) (simp add: percent_score_def)

lemma answer_submission_round_int:
  "answer_submission (fops\<lparr>round_int := other\<rparr>) = answer_submission fops"
  unfolding answer_submission_def percent_score_round_int
  by (simp cong: if_cong list.case_cong prod.case_cong sum.case_cong)

lemma take_quiz_round_int:
  "snd (take_quiz (fops\<lparr>round_int := other\<rparr>) fault request pk st)
     = snd (take_quiz fops fault request pk st)"
  by (simp add: take_quiz_def answer_submission_round_int Let_def split: option.splits)

lemma transaction_never_renders:
  "fst (atomic (answer_submission fops fault student pk quiz question chosen total_questions) st)
     \<noteq> Inr (Render_take_quiz_form quiz' question' form progress)"
proof -
  let ?body = "answer_submission fops fault student pk quiz question chosen total_questions"
  from atomic_cases [of ?body st] show ?thesis
  proof (elim disjE exE conjE)
    fix e st2
    assume "atomic ?body st = (Inl e, st2\<lparr>db := db st\<rparr>)"
    then show ?thesis by simp
  next
    fix r st2
    assume b: "?body st = (Inr r, st2)" and a: "atomic ?body st = (Inr r, st2)"
    from answer_submission_db [where fops = fops and fault = fault
        and student = student and pk = pk and quiz = quiz
        and question = question and chosen = chosen
        and total_questions = total_questions and st = st] b
    have "r = Redirect_take_quiz pk \<or> r = Redirect_quiz_list" by auto
    with a show ?thesis by auto
  qed
qed

lemma answer_submission_session:
  "session (snd (answer_submission fops fault student pk quiz question chosen total_questions st))
     = session st
   \<or> (\<exists>b. session (snd (answer_submission fops fault student pk quiz question chosen
                            total_questions st))
            = session (snd (update_session_score (quiz_id quiz) b st)))"
  by (auto simp: answer_submission_def update_session_score_eq Let_def split: list.splits)

lemma atomic_session: "session (snd (atomic body st)) = session (snd (body st))"
  by (cases "body st"; cases "fst (body st)") (auto simp: atomic_def)

lemma exponent_stays_positive:
  assumes "1 \<le> snd (session_score_state (session st) pk)"
  shows "1 \<le> snd (session_score_state (session (snd (take_quiz fops fault request pk st))) pk)"
proof -
  from take_quiz_cases [of fops fault request pk st] show ?thesis
  proof (elim disjE exE conjE)
    assume "take_quiz fops fault request pk st = (fst (take_quiz fops fault request pk st), st)"
    then have "snd (take_quiz fops fault request pk st) = st" by (metis snd_conv)
    with assms show ?thesis by simp
  next
    fix quiz question chosen
    assume id: "quiz_id quiz = pk"
      and t: "take_quiz fops fault request pk st =
             atomic (answer_submission fops fault (request_student request) pk quiz question
                       chosen (int (length (quiz_questions (db st) pk)))) st"
    from answer_submission_session [of fops fault "request_student request" pk quiz question
        chosen "int (length (quiz_questions (db st) pk))" st]
    show ?thesis
      using assms
      by (auto simp: t atomic_session id update_session_score_eq session_score_state_upd scored_def)
  qed
qed

section \<open>The classroom, run\<close>

lemmas run_defs = take_quiz_def get_quiz_def student_quizzes_def student_quizzes_exists_def
  quiz_questions_def
  get_unanswered_questions_def quiz_answers_def first_def cleaned_answer_def
  question_answers_def atomic_def answer_submission_def update_session_score_def
  session_get_def temp_score_name_def next_exponent_name_def save_student_answer_def
  create_taken_quiz_def percent_score_def count_correct_answers_def progress_percent_def
  session_score_state_def graded_def exact_ops_def round_half_even_def str.simps
  digit_char_def submission_def Let_def

lemma fresh_score_state: "session_score_state (session fresh) 4 = (0, 1)"
  by (simp add: fresh_def session_score_state_def session_get_def)

lemma fresh_graded: "graded (db fresh) (submit 411) 4 = Some True"
  by (simp add: fresh_def classroom_def submit_def run_defs)

lemma fresh_submit:
  "take_quiz exact_ops None (submit 411) 4 fresh = (Inr (Redirect_take_quiz 4), first_right)"
  by (simp add: fresh_def classroom_def submit_def first_right_def run_defs)

lemma first_right_score_state: "session_score_state (session first_right) 4 = (2, 2)"
  by (simp add: first_right_def run_defs)

lemma first_right_graded_right: "graded (db first_right) (submit 421) 4 = Some True"
  by (simp add: first_right_def classroom_def submit_def run_defs)

lemma first_right_graded_wrong: "graded (db first_right) (submit 422) 4 = Some False"
  by (simp add: first_right_def classroom_def submit_def run_defs)

lemma first_right_last: "length (get_unanswered_questions (db first_right) 7 4) = 1"
  by (simp add: first_right_def classroom_def run_defs)

lemma first_right_quiz:
  "get_quiz (db first_right) 4 = Some \<lparr>quiz_id = 4, quiz_name = ''Sums'', quiz_subject = 3\<rparr>"
  by (simp add: first_right_def classroom_def run_defs)

lemma submit_simps [simp]:
  "request_student (submit a) = 7" "post_answer (submit a) = Some a"
  "request_method (submit a) = POST"
  by (simp_all add: submit_def submission_def)

lemma first_right_submit_wrong:
  "take_quiz exact_ops None (submit 422) 4 first_right =
     (Inr Redirect_quiz_list,
      completed\<lparr>messages := [(WARNING, Correct_score 2), (WARNING, Wrong_score 0),
                              (SUCCESS, Congratulations ''Sums'' 50)]\<rparr>)"
  by (simp add: first_right_def classroom_def submit_def completed_def run_defs fun_upd_twist)

lemma completed_quiz:
  "get_quiz (db completed) 4 = Some \<lparr>quiz_id = 4, quiz_name = ''Sums'', quiz_subject = 3\<rparr>"
  by (simp add: completed_def classroom_def run_defs)

lemma completed_taken: "student_quizzes_exists (db completed) 7 4"
  by (simp add: completed_def classroom_def run_defs)

lemma first_right_one_each: "one_taken_quiz_each (db first_right)"
  by (simp add: first_right_def classroom_def one_taken_quiz_each_def run_defs)

lemma first_right_not_taken: "\<not> student_quizzes_exists (db first_right) 7 4"
  by (simp add: first_right_def classroom_def run_defs)

lemma first_right_current:
  "first (get_unanswered_questions (db first_right) 7 4)
     = Some \<lparr>question_id = 42, question_quiz = 4\<rparr>"
  by (simp add: first_right_def classroom_def run_defs)

lemma first_right_cleaned:
  "cleaned_answer (db first_right)
     (Bound_form \<lparr>question_id = 42, question_quiz = 4\<rparr> (Some 422)) = Some 422"
  by (simp add: first_right_def classroom_def run_defs)

lemma fresh_fetch:
  "take_quiz exact_ops None fetch 4 fresh =
     (Inr (Render_take_quiz_form \<lparr>quiz_id = 4, quiz_name = ''Sums'', quiz_subject = 3\<rparr>
             \<lparr>question_id = 41, question_quiz = 4\<rparr>
             (Unbound_form \<lparr>question_id = 41, question_quiz = 4\<rparr>) 50),
      fresh)"
  by (simp add: fresh_def classroom_def fetch_def run_defs)

section \<open>The scoring rule\<close>

text \<open>
  Claim C1. When the chosen answer is the correct answer of the current question, a
  submission met with the session state \<open>(temp_score, next_exponent)\<close> leaves the
  state \<open>(temp_score + 2 ^ next_exponent, next_exponent + 1)\<close>; and after a fresh
  attempt (neither session key of the quiz is set) of \<open>n\<close> consecutive correct
  answers of a student the running score is \<open>2 ^ (n + 1) - 2\<close>. The exponent is an
  int that is not negative, as every exponent the view stores
  (\<open>exponent_stays_positive\<close>).
\<close>

theorem correct_answer_doubles:
  "(graded (db st) request pk = Some True
      \<and> session_score_state (session st) pk = (temp_score, next_exponent)
      \<and> 0 \<le> next_exponent
    \<longrightarrow> session_score_state (session (snd (take_quiz fops None request pk st))) pk
          = (temp_score + 2 ^ nat next_exponent, next_exponent + 1))
   \<and> (session st (temp_score_name pk) = None \<and> session st (next_exponent_name pk) = None
      \<and> all_correct fops student pk chosen st
    \<longrightarrow> fst (session_score_state (session (attempt fops student pk chosen st)) pk)
          = 2 ^ (length chosen + 1) - 2)"
proof (intro conjI impI)
  assume h: "graded (db st) request pk = Some True
      \<and> session_score_state (session st) pk = (temp_score, next_exponent)
      \<and> 0 \<le> next_exponent"
  then have "graded (db st) request pk = Some True" by simp
  from take_quiz_graded_session [OF this, of fops] h
  show "session_score_state (session (snd (take_quiz fops None request pk st))) pk
          = (temp_score + 2 ^ nat next_exponent, next_exponent + 1)"
    by (simp add: scored_def)
next
  assume h: "session st (temp_score_name pk) = None \<and> session st (next_exponent_name pk) = None
      \<and> all_correct fops student pk chosen st"
  then have start: "session_score_state (session st) pk = (0, 1)"
    by (simp add: session_score_state_def session_get_def)
  from h have "all_correct fops student pk chosen st" by simp
  from streak [OF this start]
  have "fst (session_score_state (session (attempt fops student pk chosen st)) pk)
          = 2 * (2 ^ length chosen - 1)"
    by simp
  then show "fst (session_score_state (session (attempt fops student pk chosen st)) pk)
          = 2 ^ (length chosen + 1) - 2"
    by (simp add: algebra_simps)
qed

theorem correct_answer_doubles_witness:
  "graded (db fresh) (submit 411) 4 = Some True
   \<and> session_score_state (session fresh) 4 = (0, 1)
   \<and> session_score_state (session (snd (take_quiz exact_ops None (submit 411) 4 fresh))) 4
       = (2, 2)
   \<and> session fresh (temp_score_name 4) = None \<and> session fresh (next_exponent_name 4) = None
   \<and> all_correct exact_ops 7 4 [411, 421] fresh
   \<and> fst (session_score_state (session (attempt exact_ops 7 4 [411, 421] fresh)) 4) = 6"
proof -
  have keys: "session fresh (temp_score_name 4) = None
      \<and> session fresh (next_exponent_name 4) = None"
    by (simp add: fresh_def)
  have run: "all_correct exact_ops 7 4 [411, 421] fresh"
    using fresh_graded fresh_submit first_right_graded_right by (simp add: submit_def)
  note inst = correct_answer_doubles
    [of fresh "submit 411" 4 0 1 exact_ops 7 "[411, 421]"]
  from inst fresh_graded fresh_score_state
  have one: "session_score_state (session (snd (take_quiz exact_ops None (submit 411) 4 fresh))) 4
       = (2, 2)"
    by simp
  from inst keys run
  have two: "fst (session_score_state (session (attempt exact_ops 7 4 [411, 421] fresh)) 4) = 6"
    by simp
  from fresh_graded fresh_score_state one keys run two show ?thesis by blast
qed

text \<open>
  Claim C3. When the chosen answer is not the correct answer of the current question,
  a submission met with the session state \<open>(temp_score, next_exponent)\<close> leaves the
  state \<open>(temp_score - 2, 1)\<close>, whatever the exponent (the length of the streak) was.
\<close>

theorem wrong_answer_resets:
  "graded (db st) request pk = Some False
   \<Longrightarrow> session_score_state (session st) pk = (temp_score, next_exponent)
   \<Longrightarrow> session_score_state (session (snd (take_quiz fops None request pk st))) pk
         = (temp_score - 2, 1)"
  using take_quiz_graded_session [of st request pk False fops] by (simp add: scored_def)

theorem wrong_answer_resets_witness:
  "graded (db first_right) (submit 422) 4 = Some False
   \<and> session_score_state (session first_right) 4 = (2, 2)
   \<and> session_score_state (session (snd (take_quiz exact_ops None (submit 422) 4 first_right))) 4
       = (0, 1)"
  using wrong_answer_resets [OF first_right_graded_wrong first_right_score_state, of exact_ops]
    first_right_graded_wrong first_right_score_state
  by simp

section \<open>The completing submission\<close>



text \<open>
  Claim C8. On the completing submission the view redirects to the quiz list, and the
  message it queues last is the success message when \<open>50.0 \<le> score\<close> and the
  "better luck" warning otherwise; a message of level success is queued exactly when
  \<open>50.0 \<le> score\<close>, so a score of exactly 50.0 is a success.
\<close>

theorem pass_message_threshold:
  assumes "graded (db st) request pk = Some b"
    and "length (get_unanswered_questions (db st) (request_student request) pk) = 1"
    and "get_quiz (db st) pk = Some quiz"
    and "st' = snd (take_quiz fops None request pk st)"
    and "score = tq_score (last (taken_quizzes (db st')))"
  shows "fst (take_quiz fops None request pk st) = Inr Redirect_quiz_list
       \<and> (SUCCESS \<in> fst ` set (drop (length (messages st)) (messages st')))
           = (float_of_int fops 50 \<le> score)
       \<and> last (messages st')
           = (if float_of_int fops 50 \<le> score
              then (SUCCESS, Congratulations (quiz_name quiz) score)
              else (WARNING, Better_luck (quiz_name quiz) score))"
proof -
  from take_quiz_completing [OF assms(1,2), of fops] assms(3)
  obtain chosen where t: "take_quiz fops None request pk st =
     (let student = request_student request;
          d1 = save_student_answer (db st) student chosen;
          st2 = snd (update_session_score pk b st);
          score = percent_score fops (int (count_correct_answers d1 student pk))
                    (int (length (quiz_questions (db st) pk)))
      in (Inr Redirect_quiz_list,
               st2\<lparr>db := create_taken_quiz d1 student pk score,
                   messages := messages st2 @
                     [if score < float_of_int fops 50
                      then (WARNING, Better_luck (quiz_name quiz) score)
                      else (SUCCESS, Congratulations (quiz_name quiz) score)]\<rparr>))"
    by auto
  define sc where "sc = percent_score fops
      (int (count_correct_answers
              (save_student_answer (db st) (request_student request) chosen)
              (request_student request) pk))
      (int (length (quiz_questions (db st) pk)))"
  from t have r: "fst (take_quiz fops None request pk st) = Inr Redirect_quiz_list"
    by (simp add: Let_def)
  from t assms(4) have d: "taken_quizzes (db st') = taken_quizzes (db st) @
      [\<lparr>tq_student = request_student request, tq_quiz = pk, tq_score = sc\<rparr>]"
    by (simp add: Let_def create_taken_quiz_def sc_def)
  with assms(5) have score: "score = sc" by simp
  from t assms(4) have m: "messages st' = messages st @
      [(WARNING, if b then Correct_score (fst (scored b (session_score_state (session st) pk)))
                 else Wrong_score (fst (scored b (session_score_state (session st) pk)))),
       if sc < float_of_int fops 50
       then (WARNING, Better_luck (quiz_name quiz) sc)
       else (SUCCESS, Congratulations (quiz_name quiz) sc)]"
    by (simp add: Let_def update_session_score_eq sc_def)
  show ?thesis
  proof (cases "sc < float_of_int fops 50")
    case True
    with r m score show ?thesis by simp
  next
    case False
    with r m score show ?thesis by (simp add: not_less)
  qed
qed

theorem pass_message_threshold_witness:
  "graded (db first_right) (submit 422) 4 = Some False
   \<and> length (get_unanswered_questions (db first_right) (request_student (submit 422)) 4) = 1
   \<and> get_quiz (db first_right) 4 = Some \<lparr>quiz_id = 4, quiz_name = ''Sums'', quiz_subject = 3\<rparr>
   \<and> tq_score (last (taken_quizzes (db (snd (take_quiz exact_ops None (submit 422) 4 first_right)))))
       = 50
   \<and> fst (take_quiz exact_ops None (submit 422) 4 first_right) = Inr Redirect_quiz_list
   \<and> SUCCESS \<in> fst ` set (drop (length (messages first_right))
         (messages (snd (take_quiz exact_ops None (submit 422) 4 first_right))))
   \<and> last (messages (snd (take_quiz exact_ops None (submit 422) 4 first_right)))
       = (SUCCESS, Congratulations ''Sums'' 50)"
proof -
  have l: "length (get_unanswered_questions (db first_right) (request_student (submit 422)) 4) = 1"
    using first_right_last by simp
  have s: "tq_score (last (taken_quizzes
             (db (snd (take_quiz exact_ops None (submit 422) 4 first_right))))) = 50"
    by (simp add: first_right_def classroom_def submit_def run_defs)
  from pass_message_threshold [OF first_right_graded_wrong l first_right_quiz refl refl, of exact_ops]
  have "fst (take_quiz exact_ops None (submit 422) 4 first_right) = Inr Redirect_quiz_list
   \<and> SUCCESS \<in> fst ` set (drop (length (messages first_right))
         (messages (snd (take_quiz exact_ops None (submit 422) 4 first_right))))
   \<and> last (messages (snd (take_quiz exact_ops None (submit 422) 4 first_right)))
       = (SUCCESS, Congratulations ''Sums'' 50)"
    unfolding s by (simp add: exact_ops_def)
  with first_right_graded_wrong l first_right_quiz s show ?thesis by blast
qed

section \<open>Refusals\<close>

text \<open>
  Claim C4. When the student already has a TakenQuiz of the quiz, every request is
  answered with the "taken quiz" page and the state (StudentAnswer, TakenQuiz, session,
  messages) is what it was. And every request, whatever it is, keeps the invariant
  that a student has at most one TakenQuiz of a quiz: a TakenQuiz is only created
  when there is none.
\<close>

theorem taken_quiz_refused:
  "(student_quizzes_exists (db st) (request_student request) pk
    \<longrightarrow> take_quiz fops fault request pk st = (Inr Render_taken_quiz, st))
   \<and> (one_taken_quiz_each (db st)
    \<longrightarrow> one_taken_quiz_each (db (snd (take_quiz fops fault request pk st))))"
proof (intro conjI impI)
  assume h: "student_quizzes_exists (db st) (request_student request) pk"
  then have "\<exists>quiz. get_quiz (db st) pk = Some quiz"
    by (simp add: student_quizzes_exists_iff get_quiz_Some_iff)
  with h show "take_quiz fops fault request pk st = (Inr Render_taken_quiz, st)"
    by (auto simp: take_quiz_def)
next
  assume inv: "one_taken_quiz_each (db st)"
  obtain r st' where t: "take_quiz fops fault request pk st = (r, st')"
    by (cases "take_quiz fops fault request pk st")
  show "one_taken_quiz_each (db (snd (take_quiz fops fault request pk st)))"
  proof (cases r)
    case (Inl e)
    with take_quiz_db [where fops = fops and fault = fault and request = request
        and pk = pk and st = st] t inv
    show ?thesis by simp
  next
    case (Inr resp)
    with take_quiz_db [where fops = fops and fault = fault and request = request
        and pk = pk and st = st] t inv
    show ?thesis
      by (auto simp: one_taken_quiz_each_save one_taken_quiz_each_create)
  qed
qed

theorem taken_quiz_refused_witness:
  "student_quizzes_exists (db completed) (request_student (submit 411)) 4
   \<and> take_quiz exact_ops None (submit 411) 4 completed = (Inr Render_taken_quiz, completed)
   \<and> one_taken_quiz_each (db first_right)
   \<and> one_taken_quiz_each (db (snd (take_quiz exact_ops None (submit 422) 4 first_right)))"
proof -
  have t: "student_quizzes_exists (db completed) (request_student (submit 411)) 4"
    using completed_taken by simp
  from taken_quiz_refused [of completed "submit 411" 4 exact_ops None] t
  have a: "take_quiz exact_ops None (submit 411) 4 completed = (Inr Render_taken_quiz, completed)"
    by blast
  from taken_quiz_refused [of first_right "submit 422" 4 exact_ops None] first_right_one_each
  have b: "one_taken_quiz_each (db (snd (take_quiz exact_ops None (submit 422) 4 first_right)))"
    by blast
  from t a first_right_one_each b show ?thesis by blast
qed

text \<open>
  Claim C5, as the view has it: there is no "invalid quiz" response. For quiz 5 of the
  classroom, which has no question, the division of line 89 raises.
\<close>

theorem empty_quiz_divides_by_zero:
  "get_quiz (db fresh) 5 = Some \<lparr>quiz_id = 5, quiz_name = ''Draft'', quiz_subject = 3\<rparr>
   \<and> quiz_questions (db fresh) 5 = []
   \<and> take_quiz exact_ops None fetch 5 fresh = (Inl ZeroDivisionError, fresh)"
  by (simp add: fresh_def classroom_def fetch_def run_defs)

text \<open>
  Claim C5, amended. The quiz list never offers a quiz without questions; and a
  request that reaches the view with such a quiz leaves the state as it was: no
  StudentAnswer, no TakenQuiz (no final score is computed) and no session change.
\<close>

theorem empty_quiz_untouched:
  "(\<forall>q \<in> set (quiz_list_queryset d student). quiz_questions d (quiz_id q) \<noteq> [])
   \<and> (get_quiz (db st) pk = Some quiz \<and> quiz_questions (db st) pk = []
      \<longrightarrow> snd (take_quiz fops fault request pk st) = st)"
proof (intro conjI impI)
  show "\<forall>q \<in> set (quiz_list_queryset d student). quiz_questions d (quiz_id q) \<noteq> []"
    by (auto simp: quiz_list_queryset_def Let_def)
next
  assume h: "get_quiz (db st) pk = Some quiz \<and> quiz_questions (db st) pk = []"
  then have "get_quiz (db st) pk = Some quiz" by simp
  then have "quiz_id quiz = pk" by (rule get_quiz_id)
  with h show "snd (take_quiz fops fault request pk st) = st"
    by (simp add: take_quiz_def Let_def)
qed

theorem empty_quiz_untouched_witness:
  "\<lparr>quiz_id = 4, quiz_name = ''Sums'', quiz_subject = 3\<rparr> \<in> set (quiz_list_queryset classroom 7)
   \<and> quiz_questions classroom 4 \<noteq> []
   \<and> get_quiz (db fresh) 5 = Some \<lparr>quiz_id = 5, quiz_name = ''Draft'', quiz_subject = 3\<rparr>
   \<and> quiz_questions (db fresh) 5 = []
   \<and> snd (take_quiz exact_ops None (submit 411) 5 fresh) = fresh"
proof -
  have l: "\<lparr>quiz_id = 4, quiz_name = ''Sums'', quiz_subject = 3\<rparr>
             \<in> set (quiz_list_queryset classroom 7)"
    by (simp add: quiz_list_queryset_def classroom_def run_defs)
  have q: "get_quiz (db fresh) 5 = Some \<lparr>quiz_id = 5, quiz_name = ''Draft'', quiz_subject = 3\<rparr>"
    by (simp add: fresh_def classroom_def run_defs)
  have e: "quiz_questions (db fresh) 5 = []"
    by (simp add: fresh_def classroom_def run_defs)
  note inst = empty_quiz_untouched [of classroom 7 fresh 5 _ exact_ops None "submit 411"]
  from inst l have a: "quiz_questions classroom 4 \<noteq> []" by fastforce
  from inst q e have b: "snd (take_quiz exact_ops None (submit 411) 5 fresh) = fresh" by blast
  from l a q e b show ?thesis by blast
qed

text \<open>
  Claim C6. A POST whose answer is not an answer of the current question gets the
  form back, bound to the submitted data, and the state is what it was: no
  StudentAnswer, no TakenQuiz, no session change.
\<close>

theorem invalid_answer_rejected:
  assumes "get_quiz (db st) pk = Some quiz"
    and "\<not> student_quizzes_exists (db st) (request_student request) pk"
    and "request_method request = POST"
    and "first (get_unanswered_questions (db st) (request_student request) pk) = Some question"
    and "post_answer request = Some a"
    and "a \<notin> answer_id ` set (question_answers (db st) (question_id question))"
  shows "take_quiz fops fault request pk st =
           (Inr (Render_take_quiz_form quiz question (Bound_form question (Some a))
                   (progress_percent fops
                      (int (length (get_unanswered_questions (db st) (request_student request) pk)))
                      (int (length (quiz_questions (db st) pk))))),
            st)"
proof -
  from assms(1) have id: "quiz_id quiz = pk" by (rule get_quiz_id)
  from assms(4) have ne: "quiz_questions (db st) pk \<noteq> []" by (rule first_unanswered_questions)
  from assms(5,6) have "cleaned_answer (db st) (Bound_form question (post_answer request)) = None"
    by (simp add: cleaned_answer_def)
  with assms(1-5) id ne show ?thesis by (simp add: take_quiz_def Let_def)
qed

theorem invalid_answer_rejected_witness:
  "get_quiz (db first_right) 4 = Some \<lparr>quiz_id = 4, quiz_name = ''Sums'', quiz_subject = 3\<rparr>
   \<and> \<not> student_quizzes_exists (db first_right) (request_student (submit 411)) 4
   \<and> request_method (submit 411) = POST
   \<and> first (get_unanswered_questions (db first_right) (request_student (submit 411)) 4)
       = Some \<lparr>question_id = 42, question_quiz = 4\<rparr>
   \<and> post_answer (submit 411) = Some 411
   \<and> 411 \<notin> answer_id ` set (question_answers (db first_right) 42)
   \<and> take_quiz exact_ops None (submit 411) 4 first_right =
       (Inr (Render_take_quiz_form \<lparr>quiz_id = 4, quiz_name = ''Sums'', quiz_subject = 3\<rparr>
               \<lparr>question_id = 42, question_quiz = 4\<rparr>
               (Bound_form \<lparr>question_id = 42, question_quiz = 4\<rparr> (Some 411)) 100),
        first_right)"
proof -
  have nt: "\<not> student_quizzes_exists (db first_right) (request_student (submit 411)) 4"
    using first_right_not_taken by simp
  have m: "request_method (submit 411) = POST" by simp
  have f: "first (get_unanswered_questions (db first_right) (request_student (submit 411)) 4)
       = Some \<lparr>question_id = 42, question_quiz = 4\<rparr>"
    using first_right_current by simp
  have p: "post_answer (submit 411) = Some 411" by simp
  have n: "411 \<notin> answer_id ` set (question_answers (db first_right)
              (question_id \<lparr>question_id = 42, question_quiz = 4\<rparr>))"
    by (simp add: first_right_def classroom_def run_defs)
  have pr: "progress_percent exact_ops
              (int (length (get_unanswered_questions (db first_right)
                      (request_student (submit 411)) 4)))
              (int (length (quiz_questions (db first_right) 4))) = 100"
    by (simp add: first_right_def classroom_def run_defs)
  from invalid_answer_rejected [OF first_right_quiz nt m f p n, of exact_ops None]
  have "take_quiz exact_ops None (submit 411) 4 first_right =
       (Inr (Render_take_quiz_form \<lparr>quiz_id = 4, quiz_name = ''Sums'', quiz_subject = 3\<rparr>
               \<lparr>question_id = 42, question_quiz = 4\<rparr>
               (Bound_form \<lparr>question_id = 42, question_quiz = 4\<rparr> (Some 411)) 100),
        first_right)"
    by (simp only: pr)
  with first_right_quiz nt m f p n show ?thesis by simp
qed

section \<open>Atomicity\<close>

text \<open>
  Claim C7. For a valid submission the writes are all or nothing. When the request
  ends in an exception the database is what it was on entry; when it ends in a
  response the StudentAnswer is written, and the TakenQuiz with it when the response
  is the redirect to the quiz list. A storage failure at any operation of the
  transaction that a graded submission reaches does end the request in an exception.
\<close>

theorem submission_all_or_nothing:
  assumes "get_quiz (db st) pk = Some quiz"
    and "\<not> student_quizzes_exists (db st) (request_student request) pk"
    and "request_method request = POST"
    and "first (get_unanswered_questions (db st) (request_student request) pk) = Some question"
    and "cleaned_answer (db st) (Bound_form question (post_answer request)) = Some chosen"
    and "take_quiz fops fault request pk st = (r, st')"
  shows "(case r of
            Inl e \<Rightarrow> db st' = db st
          | Inr resp \<Rightarrow>
              (resp = Redirect_take_quiz pk
                 \<and> db st' = save_student_answer (db st) (request_student request) chosen)
            \<or> (resp = Redirect_quiz_list
                 \<and> (\<exists>score. db st' =
                       create_taken_quiz
                         (save_student_answer (db st) (request_student request) chosen)
                         (request_student request) pk score)))
       \<and> (graded (db st) request pk \<noteq> None \<and> fault = Some step
            \<and> (step = Count_correct_final \<or> step = Create_taken_quiz
                 \<longrightarrow> length (get_unanswered_questions (db st) (request_student request) pk) = 1)
          \<longrightarrow> r = Inl StorageFailure)"
proof (intro conjI impI)
  from assms(1) have id: "quiz_id quiz = pk" by (rule get_quiz_id)
  from assms(4) have ne: "quiz_questions (db st) pk \<noteq> []" by (rule first_unanswered_questions)
  let ?body = "answer_submission fops fault (request_student request) pk quiz question
                 chosen (int (length (quiz_questions (db st) pk)))"
  have t: "take_quiz fops fault request pk st = atomic ?body st"
    using assms(1-5) id ne by (simp add: take_quiz_def Let_def)
  from atomic_cases [of ?body st]
  show "case r of
            Inl e \<Rightarrow> db st' = db st
          | Inr resp \<Rightarrow>
              (resp = Redirect_take_quiz pk
                 \<and> db st' = save_student_answer (db st) (request_student request) chosen)
            \<or> (resp = Redirect_quiz_list
                 \<and> (\<exists>score. db st' =
                       create_taken_quiz
                         (save_student_answer (db st) (request_student request) chosen)
                         (request_student request) pk score))"
  proof (elim disjE exE conjE)
    fix e st2
    assume "?body st = (Inl e, st2)" "atomic ?body st = (Inl e, st2\<lparr>db := db st\<rparr>)"
    with t assms(6) show ?thesis by auto
  next
    fix resp st2
    assume b: "?body st = (Inr resp, st2)" and a: "atomic ?body st = (Inr resp, st2)"
    from answer_submission_db [where fops = fops and fault = fault
          and student = "request_student request" and pk = pk and quiz = quiz
          and question = question and chosen = chosen
          and total_questions = "int (length (quiz_questions (db st) pk))" and st = st] b
    have "(resp = Redirect_take_quiz pk
          \<and> db st2 = save_student_answer (db st) (request_student request) chosen)
        \<or> (resp = Redirect_quiz_list
          \<and> (\<exists>score. db st2 = create_taken_quiz
                  (save_student_answer (db st) (request_student request) chosen)
                  (request_student request) pk score))"
      by (auto simp: id)
    with t a assms(6) show ?thesis by auto
  qed
next
  assume h: "graded (db st) request pk \<noteq> None \<and> fault = Some step
            \<and> (step = Count_correct_final \<or> step = Create_taken_quiz
                 \<longrightarrow> length (get_unanswered_questions (db st) (request_student request) pk) = 1)"
  then obtain b where g: "graded (db st) request pk = Some b" by auto
  from h have "fault = Some step" by simp
  from fault_raises [OF g this, of fops] h assms(6)
  show "r = Inl StorageFailure" by simp
qed

theorem submission_all_or_nothing_witness:
  "get_quiz (db first_right) 4 = Some \<lparr>quiz_id = 4, quiz_name = ''Sums'', quiz_subject = 3\<rparr>
   \<and> \<not> student_quizzes_exists (db first_right) (request_student (submit 422)) 4
   \<and> request_method (submit 422) = POST
   \<and> first (get_unanswered_questions (db first_right) (request_student (submit 422)) 4)
       = Some \<lparr>question_id = 42, question_quiz = 4\<rparr>
   \<and> cleaned_answer (db first_right)
        (Bound_form \<lparr>question_id = 42, question_quiz = 4\<rparr> (post_answer (submit 422)))
       = Some 422
   \<and> graded (db first_right) (submit 422) 4 \<noteq> None
   \<and> length (get_unanswered_questions (db first_right) (request_student (submit 422)) 4) = 1
   \<and> fst (take_quiz exact_ops (Some Create_taken_quiz) (submit 422) 4 first_right)
       = Inl StorageFailure
   \<and> db (snd (take_quiz exact_ops (Some Create_taken_quiz) (submit 422) 4 first_right))
       = db first_right"
proof -
  have nt: "\<not> student_quizzes_exists (db first_right) (request_student (submit 422)) 4"
    using first_right_not_taken by simp
  have m: "request_method (submit 422) = POST" by simp
  have f: "first (get_unanswered_questions (db first_right) (request_student (submit 422)) 4)
       = Some \<lparr>question_id = 42, question_quiz = 4\<rparr>"
    using first_right_current by simp
  have c: "cleaned_answer (db first_right)
        (Bound_form \<lparr>question_id = 42, question_quiz = 4\<rparr> (post_answer (submit 422)))
       = Some 422"
    using first_right_cleaned by simp
  have g: "graded (db first_right) (submit 422) 4 \<noteq> None"
    using first_right_graded_wrong by simp
  have l: "length (get_unanswered_questions (db first_right) (request_student (submit 422)) 4) = 1"
    using first_right_last by simp
  obtain r st' where
    t: "take_quiz exact_ops (Some Create_taken_quiz) (submit 422) 4 first_right = (r, st')"
    by (cases "take_quiz exact_ops (Some Create_taken_quiz) (submit 422) 4 first_right")
  from submission_all_or_nothing [OF first_right_quiz nt m f c t, of Create_taken_quiz] g l
  have "r = Inl StorageFailure \<and> db st' = db first_right"
    by auto
  with t first_right_quiz nt m f c g l show ?thesis by simp
qed

section \<open>Rendering\<close>

text \<open>
  Claim C9. Whenever the form is rendered, the progress it shows is
  \<open>100 - round(((unanswered - 1) / total) * 100)\<close> on the counts of the database as
  the request found it, the quiz has a question, and the state is unchanged. The
  progress is not used in scoring: with any other rounding \<open>round(x)\<close>, which only the
  progress uses, every request leaves the same database, session and messages.
\<close>

theorem progress_indicator:
  "(fst (take_quiz fops fault request pk st)
      = Inr (Render_take_quiz_form quiz question form progress)
    \<longrightarrow> progress = 100 - round_int fops
          (float_mul fops
             (int_truediv fops
                (int (length (get_unanswered_questions (db st) (request_student request) pk)) - 1)
                (int (length (quiz_questions (db st) pk))))
             (float_of_int fops 100))
        \<and> quiz_questions (db st) pk \<noteq> []
        \<and> snd (take_quiz fops fault request pk st) = st)
   \<and> snd (take_quiz (fops\<lparr>round_int := other\<rparr>) fault request pk st)
       = snd (take_quiz fops fault request pk st)"
proof (intro conjI impI)
  assume h: "fst (take_quiz fops fault request pk st)
      = Inr (Render_take_quiz_form quiz question form progress)"
  then obtain quiz' where q: "get_quiz (db st) pk = Some quiz'"
    by (cases "get_quiz (db st) pk") (auto simp: take_quiz_def)
  then have id: "quiz_id quiz' = pk" by (rule get_quiz_id)
  from h q id show "progress = 100 - round_int fops
          (float_mul fops
             (int_truediv fops
                (int (length (get_unanswered_questions (db st) (request_student request) pk)) - 1)
                (int (length (quiz_questions (db st) pk))))
             (float_of_int fops 100))"
    by (auto simp: take_quiz_def Let_def progress_percent_def transaction_never_renders
        split: option.splits if_splits)
  from h q id show "quiz_questions (db st) pk \<noteq> []"
    by (auto simp: take_quiz_def Let_def split: option.splits if_splits)
  from h q id show "snd (take_quiz fops fault request pk st) = st"
    by (auto simp: take_quiz_def Let_def transaction_never_renders
        split: option.splits if_splits)
next
  show "snd (take_quiz (fops\<lparr>round_int := other\<rparr>) fault request pk st)
       = snd (take_quiz fops fault request pk st)"
    by (rule take_quiz_round_int)
qed

theorem progress_indicator_witness:
  "fst (take_quiz exact_ops None fetch 4 fresh)
     = Inr (Render_take_quiz_form \<lparr>quiz_id = 4, quiz_name = ''Sums'', quiz_subject = 3\<rparr>
              \<lparr>question_id = 41, question_quiz = 4\<rparr>
              (Unbound_form \<lparr>question_id = 41, question_quiz = 4\<rparr>) 50)
   \<and> (50::int) = 100 - round_int exact_ops
        (float_mul exact_ops
           (int_truediv exact_ops
              (int (length (get_unanswered_questions (db fresh) (request_student fetch) 4)) - 1)
              (int (length (quiz_questions (db fresh) 4))))
           (float_of_int exact_ops 100))
   \<and> snd (take_quiz exact_ops None fetch 4 fresh) = fresh
   \<and> snd (take_quiz (exact_ops\<lparr>round_int := (\<lambda>x. 0)\<rparr>) None (submit 411) 4 fresh)
       = snd (take_quiz exact_ops None (submit 411) 4 fresh)"
proof -
  have r: "fst (take_quiz exact_ops None fetch 4 fresh)
     = Inr (Render_take_quiz_form \<lparr>quiz_id = 4, quiz_name = ''Sums'', quiz_subject = 3\<rparr>
              \<lparr>question_id = 41, question_quiz = 4\<rparr>
              (Unbound_form \<lparr>question_id = 41, question_quiz = 4\<rparr>) 50)"
    by (simp add: fresh_fetch)
  from progress_indicator [of exact_ops None fetch 4 fresh _ _ _ 50] r
  have a: "(50::int) = 100 - round_int exact_ops
        (float_mul exact_ops
           (int_truediv exact_ops
              (int (length (get_unanswered_questions (db fresh) (request_student fetch) 4)) - 1)
              (int (length (quiz_questions (db fresh) 4))))
           (float_of_int exact_ops 100))
   \<and> snd (take_quiz exact_ops None fetch 4 fresh) = fresh"
    by blast
  from progress_indicator [of exact_ops None "submit 411" 4 fresh _ _ _ _ "\<lambda>x. 0"]
  have b: "snd (take_quiz (exact_ops\<lparr>round_int := (\<lambda>x. 0)\<rparr>) None (submit 411) 4 fresh)
       = snd (take_quiz exact_ops None (submit 411) 4 fresh)"
    by blast
  from r a b show ?thesis by blast
qed

text \<open>
  Claim C10. A GET changes nothing: the state after the request (StudentAnswer and
  TakenQuiz rows, session keys, messages) is the state before it; and for a quiz the
  student has not taken, with a current question, the response is the unbound form of
  that question.
\<close>

theorem get_changes_nothing:
  assumes "request_method request = GET"
  shows "snd (take_quiz fops fault request pk st) = st
       \<and> (get_quiz (db st) pk = Some quiz
            \<and> \<not> student_quizzes_exists (db st) (request_student request) pk
            \<and> first (get_unanswered_questions (db st) (request_student request) pk)
                = Some question
          \<longrightarrow> fst (take_quiz fops fault request pk st) =
                Inr (Render_take_quiz_form quiz question (Unbound_form question)
                       (progress_percent fops
                          (int (length (get_unanswered_questions (db st)
                                  (request_student request) pk)))
                          (int (length (quiz_questions (db st) pk))))))"
proof (intro conjI impI)
  from assms show "snd (take_quiz fops fault request pk st) = st"
    by (simp add: take_quiz_def Let_def split: option.splits)
next
  assume h: "get_quiz (db st) pk = Some quiz
            \<and> \<not> student_quizzes_exists (db st) (request_student request) pk
            \<and> first (get_unanswered_questions (db st) (request_student request) pk)
                = Some question"
  then have q: "get_quiz (db st) pk = Some quiz" by simp
  then have id: "quiz_id quiz = pk" by (rule get_quiz_id)
  from h have "first (get_unanswered_questions (db st) (request_student request) pk)
                = Some question" by simp
  then have ne: "quiz_questions (db st) pk \<noteq> []" by (rule first_unanswered_questions)
  from assms h id ne
  show "fst (take_quiz fops fault request pk st) =
                Inr (Render_take_quiz_form quiz question (Unbound_form question)
                       (progress_percent fops
                          (int (length (get_unanswered_questions (db st)
                                  (request_student request) pk)))
                          (int (length (quiz_questions (db st) pk)))))"
    by (simp add: take_quiz_def Let_def)
qed

theorem get_changes_nothing_witness:
  "request_method fetch = GET
   \<and> snd (take_quiz exact_ops None fetch 4 first_right) = first_right
   \<and> get_quiz (db first_right) 4 = Some \<lparr>quiz_id = 4, quiz_name = ''Sums'', quiz_subject = 3\<rparr>
   \<and> \<not> student_quizzes_exists (db first_right) (request_student fetch) 4
   \<and> first (get_unanswered_questions (db first_right) (request_student fetch) 4)
       = Some \<lparr>question_id = 42, question_quiz = 4\<rparr>
   \<and> fst (take_quiz exact_ops None fetch 4 first_right) =
       Inr (Render_take_quiz_form \<lparr>quiz_id = 4, quiz_name = ''Sums'', quiz_subject = 3\<rparr>
              \<lparr>question_id = 42, question_quiz = 4\<rparr>
              (Unbound_form \<lparr>question_id = 42, question_quiz = 4\<rparr>) 100)"
proof -
  have m: "request_method fetch = GET" by (simp add: fetch_def)
  have s: "request_student fetch = 7" by (simp add: fetch_def)
  have nt: "\<not> student_quizzes_exists (db first_right) (request_student fetch) 4"
    using first_right_not_taken by (simp add: s)
  have f: "first (get_unanswered_questions (db first_right) (request_student fetch) 4)
       = Some \<lparr>question_id = 42, question_quiz = 4\<rparr>"
    using first_right_current by (simp add: s)
  have pr: "progress_percent exact_ops
              (int (length (get_unanswered_questions (db first_right) (request_student fetch) 4)))
              (int (length (quiz_questions (db first_right) 4))) = 100"
    by (simp add: s first_right_def classroom_def run_defs)
  note inst = get_changes_nothing [OF m, of exact_ops None 4 first_right
      "\<lparr>quiz_id = 4, quiz_name = ''Sums'', quiz_subject = 3\<rparr>"
      "\<lparr>question_id = 42, question_quiz = 4\<rparr>"]
  from inst have a: "snd (take_quiz exact_ops None fetch 4 first_right) = first_right"
    by blast
  from inst first_right_quiz nt f
  have "fst (take_quiz exact_ops None fetch 4 first_right) =
       Inr (Render_take_quiz_form \<lparr>quiz_id = 4, quiz_name = ''Sums'', quiz_subject = 3\<rparr>
              \<lparr>question_id = 42, question_quiz = 4\<rparr>
              (Unbound_form \<lparr>question_id = 42, question_quiz = 4\<rparr>)
              (progress_percent exact_ops
                 (int (length (get_unanswered_questions (db first_right)
                         (request_student fetch) 4)))
                 (int (length (quiz_questions (db first_right) 4)))))"
    by blast
  then have b: "fst (take_quiz exact_ops None fetch 4 first_right) =
       Inr (Render_take_quiz_form \<lparr>quiz_id = 4, quiz_name = ''Sums'', quiz_subject = 3\<rparr>
              \<lparr>question_id = 42, question_quiz = 4\<rparr>
              (Unbound_form \<lparr>question_id = 42, question_quiz = 4\<rparr>) 100)"
    by (simp only: pr)
  from m a first_right_quiz nt f b show ?thesis by blast
qed

end
